theory Spec2Isabelle
  imports Main
begin

section \<open>The class Singleton of singleton.cpp\<close>

text \<open>
  \<^verbatim>\<open>class Singleton\<close> declares no non-static data member, so an object of the class
  carries no state: the type of its values has a single element.
\<close>

datatype Singleton = Singleton_object

text \<open>
  Where an object of type Singleton can live. \<open>Singleton_instance\<close> is the storage of
  the static data member \<^verbatim>\<open>Singleton::instance\<close>, whose address is fixed when the program
  is linked; \<open>Elsewhere n\<close> stands for any other storage (automatic or dynamic).
\<close>

datatype storage = Singleton_instance | Elsewhere nat

text \<open>
  A value of type \<^verbatim>\<open>Singleton*\<close>: the null pointer value, or the address of some storage.
\<close>

datatype pointer = nullptr | AddressOf storage

text \<open>
  How a call can end other than by returning: an exception leaves the function, or (for
  a \<^verbatim>\<open>noexcept\<close> function that an exception tries to leave) the program is terminated.
  A call that returns \<open>v\<close> has the outcome \<open>Inr v\<close>.
\<close>

datatype failure = Exception_thrown | Terminate_called

type_synonym 'a outcome = "failure + 'a"

text \<open>
  The state of the running process, as far as the class can see or touch it:
  the Singleton objects whose lifetime has begun, each with its storage; the other objects
  of static storage duration of the surrounding program, by name; and the number of dynamic
  allocations made so far.
\<close>

record process =
  objects :: "(storage \<times> Singleton) list"
  statics :: "(string \<times> int) list"
  allocations :: nat

type_synonym caller = nat

subsection \<open>Members\<close>

text \<open>
  \<^verbatim>\<open>Singleton() = default;\<close> (private). The defaulted constructor of a class without members
  and bases runs no code: it reads nothing and writes nothing.
\<close>

definition Singleton_ctor :: "process \<Rightarrow> Singleton \<times> process" where
  "Singleton_ctor s = (Singleton_object, s)"

text \<open>
  \<^verbatim>\<open>Singleton Singleton::instance;\<close> The definition of the static data member: the object
  is constructed in its static storage when the program is loaded.
\<close>

definition static_init :: "process \<Rightarrow> process" where
  "static_init s =
     (let (v, s') = Singleton_ctor s
      in s'\<lparr>objects := (Singleton_instance, v) # objects s'\<rparr>)"

text \<open>
  \<^verbatim>\<open>static inline Singleton* GetInstance() noexcept { return &instance; }\<close>
  The body is the single return statement: it takes the address of the static member.
\<close>

definition GetInstance :: "process \<Rightarrow> pointer outcome \<times> process" where
  "GetInstance s = (Inr (AddressOf Singleton_instance), s)"

text \<open>
  The four special members declared \<^verbatim>\<open>= delete\<close> (copy constructor, copy assignment, move
  constructor, move assignment) have no definition and cannot be called: they contribute no
  operation. Whether a use of them, or of the private constructor, is accepted is decided
  when the program is compiled, not when it runs.
\<close>

text \<open>
  What the declaration leaves open to code outside the class. Every constructor of the class
  is defaulted or deleted where it is first declared, none is user-provided, and there is no
  non-static data member, base class or virtual function: under C++11, C++14 and C++17 the
  class is an aggregate. The statement \<^verbatim>\<open>Singleton extra{};\<close> in client code is then
  aggregate initialisation. It calls no constructor, so neither the private default
  constructor nor the deleted copy and move members are involved, and a new Singleton object
  begins to live in the storage of \<^verbatim>\<open>extra\<close>. Storage that already holds a live object is
  not initialised again.
\<close>

definition aggregate_init :: "nat \<Rightarrow> process \<Rightarrow> process" where
  "aggregate_init n s =
     (case map_of (objects s) (Elsewhere n) of
        None \<Rightarrow> s\<lparr>objects := (Elsewhere n, Singleton_object) # objects s\<rparr>
      | Some v \<Rightarrow> s)"

subsection \<open>The life of the process\<close>

text \<open>
  The program image as loaded, before any initialisation has run: no Singleton object is
  alive yet; \<open>g\<close> are the other static objects of the program.
\<close>

definition program_image :: "(string \<times> int) list \<Rightarrow> process" where
  "program_image g = \<lparr>objects = [], statics = g, allocations = 0\<rparr>"

text \<open>
  Static initialisation is performed at load time, before any dynamic initialiser and
  before \<^verbatim>\<open>main\<close>: the first state a caller can run in is \<open>startup g\<close>.
\<close>

definition startup :: "(string \<times> int) list \<Rightarrow> process" where
  "startup g = static_init (program_image g)"

text \<open>
  What happens afterwards. \<open>Call c\<close>: caller \<open>c\<close> (a thread, a dynamic initialiser of another
  static object, \<^verbatim>\<open>main\<close>) calls \<^verbatim>\<open>Singleton::GetInstance()\<close>. \<open>Step g n\<close>: the surrounding
  program does work of its own, leaving its static objects as \<open>g\<close> and its allocation count
  as \<open>n\<close>. \<open>Aggregate_init n\<close>: client code executes \<^verbatim>\<open>Singleton extra{};\<close> for a variable
  whose storage is \<open>Elsewhere n\<close>. GetInstance reads and writes no shared object, so calls
  made by several threads at once are represented by any interleaving of them.
\<close>

datatype event =
  is_Call: Call caller
| Step "(string \<times> int) list" nat
| Aggregate_init nat

fun run :: "event list \<Rightarrow> process \<Rightarrow> pointer outcome list \<times> process" where
  "run [] s = ([], s)"
| "run (Call c # es) s =
     (let (r, s') = GetInstance s;
          (rs, s'') = run es s'
      in (r # rs, s''))"
| "run (Step g n # es) s = run es (s\<lparr>statics := g, allocations := n\<rparr>)"
| "run (Aggregate_init n # es) s = run es (aggregate_init n s)"

subsection \<open>Observations\<close>

text \<open>The number of Singleton objects alive.\<close>

definition instance_count :: "process \<Rightarrow> nat" where
  "instance_count s = length (objects s)"

text \<open>Reading through a pointer: the object at that address, if one is alive there.\<close>

fun deref :: "process \<Rightarrow> pointer \<Rightarrow> Singleton option" where
  "deref s nullptr = None"
| "deref s (AddressOf l) = map_of (objects s) l"

text \<open>
  The two states of the holder: \<open>Ready\<close> once the object in the static storage is alive,
  \<open>Uninitialized\<close> before.
\<close>

datatype holder_state = Uninitialized | Ready

definition holder :: "process \<Rightarrow> holder_state" where
  "holder s = (case map_of (objects s) Singleton_instance of
                 None \<Rightarrow> Uninitialized
               | Some v \<Rightarrow> Ready)"

section \<open>Basic facts\<close>

lemma GetInstance_result: "fst (GetInstance s) = Inr (AddressOf Singleton_instance)"
  by (simp add: GetInstance_def)

lemma GetInstance_state: "snd (GetInstance s) = s"
  by (simp add: GetInstance_def)

lemma startup_objects: "objects (startup g) = [(Singleton_instance, Singleton_object)]"
  by (simp add: startup_def static_init_def Singleton_ctor_def program_image_def)

lemma run_Call_results:
  "fst (run (Call c # es) s) = Inr (AddressOf Singleton_instance) # fst (run es s)"
  by (simp add: GetInstance_def split: prod.splits)

lemma run_Call_state: "snd (run (Call c # es) s) = snd (run es s)"
  by (simp add: GetInstance_def split: prod.splits)

lemma run_results:
  "fst (run es s) = replicate (length (filter is_Call es)) (Inr (AddressOf Singleton_instance))"
proof (induction es arbitrary: s)
  case Nil
  show ?case by simp
next
  case (Cons e es)
  show ?case
  proof (cases e)
    case (Call c)
    then show ?thesis
      using Cons.IH [of s] by (simp only: run_Call_results) simp
  next
    case (Step g n)
    then show ?thesis
      using Cons.IH [of "s\<lparr>statics := g, allocations := n\<rparr>"] by simp
  next
    case (Aggregate_init n)
    then show ?thesis
      using Cons.IH [of "aggregate_init n s"] by simp
  qed
qed

lemma aggregate_init_static_instance:
  "map_of (objects (aggregate_init n s)) Singleton_instance = map_of (objects s) Singleton_instance"
  by (simp add: aggregate_init_def split: option.splits)

lemma run_static_instance:
  "map_of (objects (snd (run es s))) Singleton_instance = map_of (objects s) Singleton_instance"
proof (induction es arbitrary: s)
  case Nil
  show ?case by simp
next
  case (Cons e es)
  show ?case
  proof (cases e)
    case (Call c)
    then show ?thesis
      using Cons.IH [of s] by (simp only: run_Call_state)
  next
    case (Step g n)
    then show ?thesis
      using Cons.IH [of "s\<lparr>statics := g, allocations := n\<rparr>"] by simp
  next
    case (Aggregate_init n)
    then show ?thesis
      using Cons.IH [of "aggregate_init n s"]
      by (simp add: aggregate_init_static_instance)
  qed
qed

lemma startup_static_instance:
  "map_of (objects (startup g)) Singleton_instance = Some Singleton_object"
  by (simp add: startup_objects)

lemma run_calls_only: "snd (run (map Call cs) s) = s"
proof (induction cs)
  case Nil
  show ?case by simp
next
  case (Cons c cs)
  then show ?case by (simp only: list.map run_Call_state)
qed

section \<open>Properties of the accessor and of the instance\<close>

text \<open>
  C1. Any two calls of GetInstance, made in any order by any callers and with any work of
  the surrounding program in between, return the identical address: the address of the one
  static instance, which is the same in every state of the process.
\<close>

theorem GetInstance_unique:
  assumes "a \<in> set (fst (run es s))" and "b \<in> set (fst (run es s))"
  shows "a = b \<and> a = Inr (AddressOf Singleton_instance)
         \<and> fst (GetInstance s1) = fst (GetInstance s2)"
proof -
  have "set (fst (run es s)) \<subseteq> {Inr (AddressOf Singleton_instance)}"
    by (simp only: run_results set_replicate_conv_if) simp
  with assms have "a = Inr (AddressOf Singleton_instance)" "b = Inr (AddressOf Singleton_instance)"
    by auto
  then show ?thesis
    by (simp add: GetInstance_result)
qed

theorem GetInstance_unique_witness:
  "fst (run [Call 0, Step [(''config'', 7)] 2, Call 1] (startup [])) ! 0
     \<in> set (fst (run [Call 0, Step [(''config'', 7)] 2, Call 1] (startup [])))
   \<and> fst (run [Call 0, Step [(''config'', 7)] 2, Call 1] (startup [])) ! 1
     \<in> set (fst (run [Call 0, Step [(''config'', 7)] 2, Call 1] (startup [])))
   \<and> fst (run [Call 0, Step [(''config'', 7)] 2, Call 1] (startup [])) ! 0
     = fst (run [Call 0, Step [(''config'', 7)] 2, Call 1] (startup [])) ! 1"
proof -
  let ?rs = "fst (run [Call 0, Step [(''config'', 7)] 2, Call 1] (startup []))"
  have a: "?rs ! 0 \<in> set ?rs"
    by (simp add: GetInstance_def)
  have b: "?rs ! 1 \<in> set ?rs"
    by (simp add: GetInstance_def)
  from GetInstance_unique [OF a b] have "?rs ! 0 = ?rs ! 1"
    by blast
  with a b show ?thesis
    by blast
qed

text \<open>
  C2. That exactly one Singleton object exists during the whole life of the process does
  not hold of the class as declared. Static initialisation creates one object, in the
  static storage; a client that then executes \<^verbatim>\<open>Singleton extra{};\<close> has created a second,
  independently owned object, and two Singleton objects are alive.
\<close>

theorem second_instance_created:
  "instance_count (startup []) = 1
   \<and> instance_count (snd (run [Aggregate_init 0] (startup []))) = 2
   \<and> objects (snd (run [Aggregate_init 0] (startup [])))
       = [(Elsewhere 0, Singleton_object), (Singleton_instance, Singleton_object)]"
  by (simp add: instance_count_def aggregate_init_def startup_objects)

text \<open>
  C5. The instance is created by static initialisation at load time: the holder is
  Uninitialized only in the image that no caller can run in, and Ready in the first state a
  caller can run in and in every later one, so that each call finds the constructed object
  behind the address it returns. The accessor makes no initialisation check: called in any
  state, even the uninitialised image, it constructs nothing and returns the same address.
  From Ready the holder never leaves.
\<close>

theorem eager_initialisation:
  assumes "holder s = Ready"
  shows "holder (snd (run es s)) = Ready
         \<and> holder (program_image g) = Uninitialized
         \<and> holder (startup g) = Ready
         \<and> holder (snd (run es (startup g))) = Ready
         \<and> fst (GetInstance (snd (run es (startup g)))) = Inr (AddressOf Singleton_instance)
         \<and> deref (snd (run es (startup g))) (AddressOf Singleton_instance) = Some Singleton_object
         \<and> GetInstance (program_image g) = (Inr (AddressOf Singleton_instance), program_image g)
         \<and> holder (snd (GetInstance s')) = holder s'"
proof -
  have "holder (snd (run es s)) = holder s"
    by (simp add: holder_def run_static_instance)
  with assms have 1: "holder (snd (run es s)) = Ready"
    by simp
  have 2: "holder (program_image g) = Uninitialized"
    by (simp add: holder_def program_image_def)
  have 3: "holder (startup g) = Ready"
    by (simp add: holder_def startup_objects)
  have 4: "holder (snd (run es (startup g))) = Ready"
    by (simp add: holder_def run_static_instance startup_static_instance)
  have 5: "deref (snd (run es (startup g))) (AddressOf Singleton_instance) = Some Singleton_object"
    by (simp add: run_static_instance startup_static_instance)
  have 6: "GetInstance (program_image g) = (Inr (AddressOf Singleton_instance), program_image g)"
    by (simp add: GetInstance_def)
  from 1 2 3 4 5 6 show ?thesis
    by (simp add: GetInstance_result GetInstance_state)
qed

theorem eager_initialisation_witness:
  "holder (startup [(''other'', 0)]) = Ready
   \<and> holder (snd (run [Call 3, Step [(''other'', 5)] 1, Call 4] (startup [(''other'', 0)]))) = Ready"
proof -
  have h: "holder (startup [(''other'', 0)]) = Ready"
    by (simp add: holder_def startup_def static_init_def Singleton_ctor_def program_image_def)
  from eager_initialisation [OF h, of "[Call 3, Step [(''other'', 5)] 1, Call 4]"]
  have "holder (snd (run [Call 3, Step [(''other'', 5)] 1, Call 4] (startup [(''other'', 0)]))) = Ready"
    by blast
  with h show ?thesis
    by blast
qed

text \<open>
  C6. GetInstance never fails: in every state, the uninitialised image included, a call
  returns a pointer and is neither left by an exception nor terminated; and in every run,
  whatever the interleaving of callers, each call returns.
\<close>

theorem GetInstance_infallible:
  "(\<exists>p. fst (GetInstance s) = Inr p)
   \<and> fst (GetInstance s) \<noteq> Inl Exception_thrown
   \<and> fst (GetInstance s) \<noteq> Inl Terminate_called
   \<and> (\<exists>ps. fst (run es s) = map Inr ps \<and> length ps = length (filter is_Call es))"
proof -
  have "fst (run es s) = map Inr (replicate (length (filter is_Call es)) (AddressOf Singleton_instance))"
    by (simp add: run_results)
  then have "\<exists>ps. fst (run es s) = map Inr ps \<and> length ps = length (filter is_Call es)"
    by (intro exI [of _ "replicate (length (filter is_Call es)) (AddressOf Singleton_instance)"]) simp
  then show ?thesis
    by (simp add: GetInstance_result)
qed

text \<open>
  C7. GetInstance has no side effect and allocates nothing: the state of the process after
  a call is the state before it (the objects, the static objects of the program and the
  allocation count alike), also after any number of calls; and what it returns does not
  depend on the state, being the address of the static instance.
\<close>

theorem GetInstance_pure:
  "snd (GetInstance s) = s
   \<and> allocations (snd (GetInstance s)) = allocations s
   \<and> snd (run (map Call cs) s) = s
   \<and> fst (GetInstance s) = fst (GetInstance s')"
proof -
  have unchanged: "snd (GetInstance s) = s"
    by (rule GetInstance_state)
  have "fst (GetInstance s) = fst (GetInstance s')"
    by (simp only: GetInstance_result)
  with unchanged show ?thesis
    by (simp add: run_calls_only)
qed

text \<open>
  C8. The construction of the instance is self-contained. The class has no state (its type
  has one value); the constructor changes nothing, and what it builds does not depend on
  the state it runs in, in particular not on the other static objects of the program. So
  static initialisation of the instance gives the same result whether the other static
  objects are set before or after it.
\<close>

theorem construction_self_contained:
  "(x :: Singleton) = Singleton_object
   \<and> snd (Singleton_ctor s) = s
   \<and> fst (Singleton_ctor s) = fst (Singleton_ctor s')
   \<and> static_init (s\<lparr>statics := g\<rparr>) = (static_init s)\<lparr>statics := g\<rparr>
   \<and> objects (startup g) = objects (startup g')"
proof -
  have "x = Singleton_object"
    by (cases x) simp
  moreover have "static_init (s\<lparr>statics := g\<rparr>) = (static_init s)\<lparr>statics := g\<rparr>"
    by (simp add: static_init_def Singleton_ctor_def)
  ultimately show ?thesis
    by (simp add: Singleton_ctor_def startup_objects)
qed

text \<open>
  C9. GetInstance never returns the null pointer. Every pointer returned by a call made
  after startup is the address of the static instance, and reading through it finds the
  object alive at that moment and at every later moment of the process.
\<close>

theorem GetInstance_not_null:
  assumes "r \<in> set (fst (run es (startup g)))"
  shows "r \<noteq> Inr nullptr
         \<and> fst (GetInstance s) \<noteq> Inr nullptr
         \<and> (\<exists>p. r = Inr p \<and> p \<noteq> nullptr
                \<and> deref (snd (run (es @ es') (startup g))) p = Some Singleton_object)"
proof -
  have "set (fst (run es (startup g))) \<subseteq> {Inr (AddressOf Singleton_instance)}"
    by (simp only: run_results set_replicate_conv_if) simp
  with assms have r: "r = Inr (AddressOf Singleton_instance)"
    by auto
  have "deref (snd (run (es @ es') (startup g))) (AddressOf Singleton_instance) = Some Singleton_object"
    by (simp add: run_static_instance startup_static_instance)
  with r show ?thesis
    by (simp add: GetInstance_result)
qed

theorem GetInstance_not_null_witness:
  "Inr (AddressOf Singleton_instance) \<in> set (fst (run [Step [] 9, Call 1] (startup [])))
   \<and> deref (snd (run ([Step [] 9, Call 1] @ [Call 2, Step [(''late'', 1)] 10]) (startup [])))
        (AddressOf Singleton_instance) = Some Singleton_object"
proof -
  have h: "Inr (AddressOf Singleton_instance) \<in> set (fst (run [Step [] 9, Call 1] (startup [])))"
    by (simp add: GetInstance_def)
  from GetInstance_not_null [OF h, of _ "[Call 2, Step [(''late'', 1)] 10]"]
  have "deref (snd (run ([Step [] 9, Call 1] @ [Call 2, Step [(''late'', 1)] 10]) (startup [])))
          (AddressOf Singleton_instance) = Some Singleton_object"
    by auto
  with h show ?thesis
    by blast
qed

text \<open>
  C10. That code outside the class cannot construct a Singleton, so that GetInstance is the
  only way to come by one, does not hold of the class as declared. Before the client
  statement \<^verbatim>\<open>Singleton extra{};\<close> no object lives in the storage of \<^verbatim>\<open>extra\<close>; after it, with
  no call of GetInstance made, a Singleton object lives there, and its address is not the
  one GetInstance returns.
\<close>

theorem instance_obtained_without_GetInstance:
  "deref (startup []) (AddressOf (Elsewhere 0)) = None
   \<and> fst (run [Aggregate_init 0] (startup [])) = []
   \<and> deref (snd (run [Aggregate_init 0] (startup []))) (AddressOf (Elsewhere 0))
       = Some Singleton_object
   \<and> fst (GetInstance (snd (run [Aggregate_init 0] (startup []))))
       \<noteq> Inr (AddressOf (Elsewhere 0))"
  by (simp add: aggregate_init_def startup_objects GetInstance_def)

end
